theory Spec2Isabelle
  imports Complex_Main "HOL-Library.Sublist"
begin

section \<open>JavaScript values and built-ins\<close>

text \<open>
  Strings are lists of characters.  Numbers are exact reals; \<open>NaN\<close> is \<open>None\<close> where a
  built-in can produce it.  IEEE rounding, the infinities and the negative zero are
  outside the model.  Built-ins of the JavaScript runtime whose result depends on the
  Unicode tables or on the number grammar (\<open>parseFloat\<close>, the regular expressions with
  \<open>\s\<close>, \<open>trim\<close>, number printing) are parameters, collected in one record; every theorem
  below holds for all values of that record.
\<close>

datatype regex = RxViewBox | RxWidthAttr | RxHeightAttr

text \<open>
  \<^item> \<open>parseFloat\<close>: \<open>None\<close> is \<open>NaN\<close>;
  \<^item> \<open>matchGroup r s\<close>: the first capture group of \<open>s.match(r)\<close>, \<open>None\<close> when
    there is no match, for \<open>/viewBox\s*=\s*["']([^"']+)["']/\<close>,
    \<open>/width\s*=\s*["']?([^"'\s>]+)/\<close> and \<open>/height\s*=\s*["']?([^"'\s>]+)/\<close>;
  \<^item> \<open>splitSpaces s\<close>: \<open>s.split(/\s+/)\<close>;
  \<^item> \<open>querySelectorText x t\<close>: the \<open>textContent\<close> of
    \<open>new DOMParser().parseFromString(x, 'text/xml').querySelector(t)\<close>, \<open>None\<close> when
    the selector finds no element.
\<close>

record jsRuntime =
  parseFloat :: "string \<Rightarrow> real option"
  matchGroup :: "regex \<Rightarrow> string \<Rightarrow> string option"
  splitSpaces :: "string \<Rightarrow> string list"
  trim :: "string \<Rightarrow> string"
  numberToString :: "real \<Rightarrow> string"
  querySelectorText :: "string \<Rightarrow> string \<Rightarrow> string option"

datatype jsError = Error string

text \<open>\<open>hay.includes(needle)\<close>\<close>

fun str_includes :: "string \<Rightarrow> string \<Rightarrow> bool" where
  "str_includes [] needle = (needle = [])"
| "str_includes (c # cs) needle = (prefix needle (c # cs) \<or> str_includes cs needle)"

text \<open>\<open>s.split(sep)\<close> for a one-character separator\<close>

fun str_split :: "char \<Rightarrow> string \<Rightarrow> string list" where
  "str_split sep [] = [[]]"
| "str_split sep (c # cs) =
     (if c = sep then [] # str_split sep cs
      else (case str_split sep cs of
              [] \<Rightarrow> [[c]]
            | w # ws \<Rightarrow> (c # w) # ws))"

text \<open>
  The first occurrence of \<open>needle\<close> in a string: the text before it and the text
  after it.
\<close>

fun splitAtFirst :: "string \<Rightarrow> string \<Rightarrow> (string \<times> string) option" where
  "splitAtFirst [] needle = (if needle = [] then Some ([], []) else None)"
| "splitAtFirst (c # cs) needle =
     (if prefix needle (c # cs) then Some ([], drop (length needle) (c # cs))
      else map_option (\<lambda>(before, after). (c # before, after)) (splitAtFirst cs needle))"

text \<open>
  \<open>s.match(/<Code><!\[CDATA\[([\s\S]*?)\]\]><\/Code>/)\<close>, first group.  The match starts
  at the leftmost opening marker that has a closing marker behind it, which is the first
  opening marker (a closing marker behind a later one is behind the first one too), and the
  lazy group ends at the first closing marker after it.
\<close>

definition matchCodeCData :: "string \<Rightarrow> string option" where
  "matchCodeCData s =
     (case splitAtFirst s ''<Code><![CDATA['' of
        None \<Rightarrow> None
      | Some (before, rest) \<Rightarrow>
          (case splitAtFirst rest '']]></Code>'' of
             None \<Rightarrow> None
           | Some (captured, after) \<Rightarrow> Some captured))"



section \<open>Shape matcher\<close>

text \<open>
  \<open>Math.abs(a - b) <= tol\<close> and \<open>Math.min(a, b) / Math.max(a, b) >= bound\<close> on
  parsed numbers: a comparison with \<open>NaN\<close> is false, and so is the comparison of
  the quotient when the divisor is zero (the quotient is then \<open>NaN\<close> or \<open>-Infinity\<close>).
\<close>

definition withinTolerance :: "real option \<Rightarrow> real option \<Rightarrow> real \<Rightarrow> bool" where
  "withinTolerance a b tol =
     (case (a, b) of (Some x, Some y) \<Rightarrow> \<bar>x - y\<bar> \<le> tol | _ \<Rightarrow> False)"

definition ratioAtLeast :: "real option \<Rightarrow> real option \<Rightarrow> real \<Rightarrow> bool" where
  "ratioAtLeast a b bound =
     (case (a, b) of
        (Some x, Some y) \<Rightarrow> max x y \<noteq> 0 \<and> min x y / max x y \<ge> bound
      | _ \<Rightarrow> False)"

definition shapesApproximatelyMatch :: "jsRuntime \<Rightarrow> string \<Rightarrow> string \<Rightarrow> bool" where
  "shapesApproximatelyMatch rt info1 info2 =
     (let parts1 = map (parseFloat rt) (str_split CHR '','' info1);
          parts2 = map (parseFloat rt) (str_split CHR '','' info2)
      in if length parts1 \<noteq> 4 \<or> length parts2 \<noteq> 4 then False
         else
           (let left1 = parts1 ! 0; top1 = parts1 ! 1; width1 = parts1 ! 2; height1 = parts1 ! 3;
                left2 = parts2 ! 0; top2 = parts2 ! 1; width2 = parts2 ! 2; height2 = parts2 ! 3;
                positionTolerance = 5;
                leftMatch = withinTolerance left1 left2 positionTolerance;
                topMatch = withinTolerance top1 top2 positionTolerance
            in if \<not> leftMatch \<or> \<not> topMatch then False
               else
                 (let sizeTolerancePercent = 1 / 2;
                      widthMatch = ratioAtLeast width1 width2 (1 - sizeTolerancePercent);
                      heightMatch = ratioAtLeast height1 height2 (1 - sizeTolerancePercent)
                  in if \<not> widthMatch \<or> \<not> heightMatch then False else True)))"

section \<open>Geometry planner and raster conversion (Word)\<close>

record 'a dims =
  width :: 'a
  height :: 'a

text \<open>\<open>!isNaN(width) && !isNaN(height) && width > 0 && height > 0\<close>\<close>

definition parsedPositive :: "real option \<Rightarrow> real option \<Rightarrow> real dims option" where
  "parsedPositive w h =
     (case (w, h) of
        (Some x, Some y) \<Rightarrow> if x > 0 \<and> y > 0 then Some \<lparr>width = x, height = y\<rparr> else None
      | _ \<Rightarrow> None)"

text \<open>The first attempt of \<open>parseSvgViewBox\<close>: the \<open>viewBox\<close> declaration.\<close>

definition viewBoxAttempt :: "jsRuntime \<Rightarrow> string \<Rightarrow> real dims option" where
  "viewBoxAttempt rt svgString =
     (case matchGroup rt RxViewBox svgString of
        None \<Rightarrow> None
      | Some viewBoxMatch \<Rightarrow>
          (let viewBoxValues = splitSpaces rt viewBoxMatch
           in if length viewBoxValues = 4
              then parsedPositive (parseFloat rt (viewBoxValues ! 2))
                                  (parseFloat rt (viewBoxValues ! 3))
              else None))"

text \<open>The fallback: the \<open>width\<close> and \<open>height\<close> attributes.\<close>

definition attributeAttempt :: "jsRuntime \<Rightarrow> string \<Rightarrow> real dims option" where
  "attributeAttempt rt svgString =
     (case (matchGroup rt RxWidthAttr svgString, matchGroup rt RxHeightAttr svgString) of
        (Some widthMatch, Some heightMatch) \<Rightarrow>
          parsedPositive (parseFloat rt widthMatch) (parseFloat rt heightMatch)
      | _ \<Rightarrow> None)"

text \<open>
  \<open>WordInserter.parseSvgViewBox\<close>.  No call in its body can throw on a string, so the
  \<open>catch\<close> branch, which returns the same sentinel, has no case of its own.
\<close>

definition parseSvgViewBox :: "jsRuntime \<Rightarrow> string \<Rightarrow> real dims" where
  "parseSvgViewBox rt svgString =
     (case viewBoxAttempt rt svgString of
        Some d \<Rightarrow> d
      | None \<Rightarrow>
          (case attributeAttempt rt svgString of
             Some d \<Rightarrow> d
           | None \<Rightarrow> \<lparr>width = 0, height = 0\<rparr>))"

text \<open>
  \<open>WordInserter.calculateOptimalDiagramSize\<close>, for \<open>svgWidth\<close> and \<open>svgHeight\<close> other
  than zero.  When \<open>availableHeight\<close> is zero, JavaScript's \<open>availableAspectRatio\<close> is
  \<open>Infinity\<close>, \<open>-Infinity\<close> or \<open>NaN\<close>, and the comparison with it holds for
  \<open>-Infinity\<close> only, that is for a negative \<open>availableWidth\<close>.  \<open>Math.round\<close> is
  \<open>round\<close>: both are \<open>\<lfloor>x + 1/2\<rfloor>\<close>.
\<close>

definition calculateOptimalDiagramSize ::
  "real \<Rightarrow> real \<Rightarrow> real \<Rightarrow> real \<Rightarrow> real \<Rightarrow> real \<Rightarrow> real \<Rightarrow> real \<Rightarrow> int dims" where
  "calculateOptimalDiagramSize svgWidth svgHeight pageWidth pageHeight
       marginLeft marginRight marginTop marginBottom =
     (let availableWidth = pageWidth - marginLeft - marginRight;
          availableHeight = pageHeight - marginTop - marginBottom;
          svgAspectRatio = svgWidth / svgHeight;
          fitToWidth = (if availableHeight = 0 then availableWidth < 0
                        else svgAspectRatio > availableWidth / availableHeight);
          (targetWidth, targetHeight) =
             (if fitToWidth then (availableWidth, availableWidth / svgAspectRatio)
              else (availableHeight * svgAspectRatio, availableHeight));
          minSize = 144;
          (targetWidth, targetHeight) =
             (if targetWidth < minSize \<and> targetHeight < minSize
              then (if svgAspectRatio > 1 then (minSize, minSize / svgAspectRatio)
                    else (minSize * svgAspectRatio, minSize))
              else (targetWidth, targetHeight))
      in \<lparr>width = round targetWidth, height = round targetHeight\<rparr>)"

text \<open>
  The canvas of \<open>convertSvgToPngForWord\<close>: its size and what was painted on it, in
  order.  The browser decides whether the image decodes (\<open>onload\<close> or \<open>onerror\<close>),
  whether the canvas has a 2D context (without one the first use of the context throws
  a \<open>TypeError\<close>, whose text is \<open>contextErrorText\<close>), and how a canvas is encoded.
  The data URL of the image is built with \<open>encodeURIComponent\<close>, which throws on a lone
  surrogate only; the strings of the model have none.
\<close>

datatype drawOp =
  FillRect string int int int int
| DrawImage string int int int int

record canvas =
  canvasWidth :: int
  canvasHeight :: int
  painted :: "drawOp list"

record browser =
  imageLoads :: "string \<Rightarrow> bool"
  hasContext2d :: bool
  contextErrorText :: string
  pngBase64 :: "canvas \<Rightarrow> string"

record pngData = "int dims" +
  base64 :: string

definition convertSvgToPngForWord ::
  "jsRuntime \<Rightarrow> browser \<Rightarrow> string \<Rightarrow> real \<Rightarrow> real \<Rightarrow> jsError + pngData" where
  "convertSvgToPngForWord rt br svgString targetDisplayWidth targetDisplayHeight =
     (if \<not> imageLoads br svgString then Inl (Error ''Failed to load SVG image'')
      else
        (let viewBoxDimensions = parseSvgViewBox rt svgString;
             pixelsPerPoint = 300 / 72;
             cw = round (targetDisplayWidth * pixelsPerPoint);
             ch = round (targetDisplayHeight * pixelsPerPoint)
         in if \<not> hasContext2d br
            then Inl (Error (''Canvas processing failed: '' @ contextErrorText br))
            else
              (let cv = \<lparr>canvasWidth = cw, canvasHeight = ch,
                         painted = [FillRect ''white'' 0 0 cw ch,
                                    DrawImage svgString 0 0 cw ch]\<rparr>
               in Inr \<lparr>width = cw, height = ch, base64 = pngBase64 br cv\<rparr>)))"

section \<open>Metadata store\<close>

text \<open>
  The document's custom XML parts, in the order of the host's collection.  A part whose
  \<open>getXml\<close> fails at the next \<open>context.sync()\<close> has \<open>readable = False\<close>; this is the
  failure each scan guards with \<open>try\<close>/\<open>catch\<close>.  The calls \<open>add\<close> and \<open>delete\<close> are
  queued on the request context and take effect at the next \<open>context.sync()\<close> of that
  context, which succeeds; a function that throws before that \<open>context.sync()\<close> leaves
  the store as it was.  \<open>add\<close> appends a part that can be read.  Time stamps
  (\<open>new Date().toISOString()\<close>) are an argument \<open>now\<close>.
\<close>

record xmlPart =
  xml :: string
  readable :: bool

record DiagramData =
  diagram_id :: string
  code :: string

definition xmlDeclaration :: string where
  \<open>xmlDeclaration = ''<?xml version="1.0" encoding="UTF-8"?>''\<close>

definition NL :: string where
  "NL = [CHR 0x0A]"

text \<open>The block written by \<open>WordInserter.storeDiagramMetadata\<close>.\<close>

definition wordDiagramXml :: "string \<Rightarrow> string \<Rightarrow> string \<Rightarrow> string" where
  "wordDiagramXml diagramId mermaidCode createdAt =
     xmlDeclaration @ NL @
     ''<MermaidDiagram>'' @ NL @
     ''  <Id>'' @ diagramId @ ''</Id>'' @ NL @
     ''  <Code><![CDATA['' @ mermaidCode @ '']]></Code>'' @ NL @
     ''  <CreatedAt>'' @ createdAt @ ''</CreatedAt>'' @ NL @
     ''</MermaidDiagram>''"

definition storeDiagramMetadata :: "string \<Rightarrow> xmlPart list \<Rightarrow> string \<Rightarrow> string \<Rightarrow> xmlPart list" where
  "storeDiagramMetadata now customXmlParts diagramId mermaidCode =
     customXmlParts @ [\<lparr>xml = wordDiagramXml diagramId mermaidCode now, readable = True\<rparr>]"

text \<open>The scan of \<open>WordInserter.getSelectedDiagram\<close> over the custom XML parts.\<close>

fun findWordMetadata :: "string \<Rightarrow> xmlPart list \<Rightarrow> DiagramData option" where
  "findWordMetadata diagramId [] = None"
| "findWordMetadata diagramId (part # parts) =
     (if readable part \<and> str_includes (xml part) ''<MermaidDiagram>''
         \<and> str_includes (xml part) (''<Id>'' @ diagramId @ ''</Id>'')
      then (case matchCodeCData (xml part) of
              Some codeMatch \<Rightarrow> Some \<lparr>diagram_id = diagramId, code = codeMatch\<rparr>
            | None \<Rightarrow> findWordMetadata diagramId parts)
      else findWordMetadata diagramId parts)"

record inlinePicture =
  altTextDescription :: string

text \<open>
  \<open>WordInserter.getSelectedDiagram\<close>; the selection is \<open>None\<close> when reading it throws,
  which the outer \<open>catch\<close> turns into \<open>null\<close>.
\<close>

definition WordInserter_getSelectedDiagram ::
  "inlinePicture list option \<Rightarrow> xmlPart list \<Rightarrow> DiagramData option" where
  "WordInserter_getSelectedDiagram selection customXmlParts =
     (case selection of
        None \<Rightarrow> None
      | Some [] \<Rightarrow> None
      | Some (selectedPicture # others) \<Rightarrow>
          (let altText = altTextDescription selectedPicture
           in if altText = [] \<or> \<not> prefix ''MERMAID_ID:'' altText then None
              else findWordMetadata (drop (length ''MERMAID_ID:'') altText) customXmlParts))"

text \<open>
  The first part that satisfies \<open>P\<close> is deleted; \<open>None\<close> when the scan finds none.
\<close>

fun deleteFirst :: "(xmlPart \<Rightarrow> bool) \<Rightarrow> xmlPart list \<Rightarrow> xmlPart list option" where
  "deleteFirst P [] = None"
| "deleteFirst P (part # parts) =
     (if P part then Some parts else map_option (Cons part) (deleteFirst P parts))"

text \<open>
  \<open>WordInserter.updateDiagram\<close>: the scan that queues the deletion of the old block, the
  raster at the planned size, and the new block.  The deletion is sent with the
  \<open>context.sync()\<close> that follows \<open>storeDiagramMetadata\<close>: when the conversion fails, the
  function throws before it and the store is unchanged.  The inline picture placed in the
  body is not part of the state.
\<close>

definition getDocumentPageDimensions :: "real \<times> real \<times> real \<times> real \<times> real \<times> real" where
  "getDocumentPageDimensions = (612, 792, 72, 72, 72, 72)"

text \<open>The test of the scan: the part can be read and its text contains the identifier element.\<close>

definition mentionsId :: "string \<Rightarrow> xmlPart \<Rightarrow> bool" where
  "mentionsId diagramId part =
     (readable part \<and> str_includes (xml part) (''<Id>'' @ diagramId @ ''</Id>''))"

definition WordInserter_updateDiagram ::
  "jsRuntime \<Rightarrow> browser \<Rightarrow> string \<Rightarrow> xmlPart list \<Rightarrow> string \<Rightarrow> string \<Rightarrow> string
     \<Rightarrow> (jsError + unit) \<times> xmlPart list" where
  "WordInserter_updateDiagram rt br now customXmlParts diagramId mermaidCode svgContent =
     (case deleteFirst (mentionsId diagramId) customXmlParts of
        None \<Rightarrow>
          (Inl (Error (''Failed to update diagram: '' @ ''Diagram with ID '' @ diagramId
                       @ '' not found. It may have been deleted or moved.'')),
           customXmlParts)
      | Some remaining \<Rightarrow>
          (let (pageWidth, pageHeight, marginLeft, marginRight, marginTop, marginBottom) =
                 getDocumentPageDimensions;
               svgDimensions = parseSvgViewBox rt svgContent;
               (svgWidth, svgHeight) =
                 (if width svgDimensions \<le> 0 \<or> height svgDimensions \<le> 0 then (800, 600)
                  else (width svgDimensions, height svgDimensions));
               optimalSize = calculateOptimalDiagramSize svgWidth svgHeight pageWidth pageHeight
                               marginLeft marginRight marginTop marginBottom
           in case convertSvgToPngForWord rt br svgContent
                     (real_of_int (width optimalSize)) (real_of_int (height optimalSize)) of
                Inl (Error message) \<Rightarrow>
                  (Inl (Error (''Failed to update diagram: '' @ message)), customXmlParts)
              | Inr pngWithWhiteBackground \<Rightarrow>
                  (Inr (), storeDiagramMetadata now remaining diagramId mermaidCode)))"

subsection \<open>PowerPoint\<close>

text \<open>The block written by \<open>storeDiagramDataAfterInsertion\<close>.\<close>

definition insertedDiagramXml :: "string \<Rightarrow> string \<Rightarrow> bool \<Rightarrow> string \<Rightarrow> string" where
  "insertedDiagramXml diagramId mermaidCode shapeTagged createdAt =
     xmlDeclaration @ NL @
     ''<MermaidDiagram>'' @ NL @
     ''  <Id>'' @ diagramId @ ''</Id>'' @ NL @
     ''  <Code><![CDATA['' @ mermaidCode @ '']]></Code>'' @ NL @
     ''  <ShapeTagged>'' @ (if shapeTagged then ''true'' else ''false'') @ ''</ShapeTagged>'' @ NL @
     ''  <CreatedAt>'' @ createdAt @ ''</CreatedAt>'' @ NL @
     ''</MermaidDiagram>''"

text \<open>The block written by \<open>updateDiagramData\<close>.\<close>

definition updatedDiagramXml :: "string \<Rightarrow> string \<Rightarrow> string \<Rightarrow> string" where
  "updatedDiagramXml diagramId mermaidCode updatedAt =
     xmlDeclaration @ NL @
     ''<MermaidDiagram>'' @ NL @
     ''  <Id>'' @ diagramId @ ''</Id>'' @ NL @
     ''  <Code><![CDATA['' @ mermaidCode @ '']]></Code>'' @ NL @
     ''  <ShapeTagged>true</ShapeTagged>'' @ NL @
     ''  <UpdatedAt>'' @ updatedAt @ ''</UpdatedAt>'' @ NL @
     ''</MermaidDiagram>''"

text \<open>
  The test of the scans in \<open>updateDiagramData\<close>: the part can be read, its text is not
  empty, and the \<open>Id\<close> element of the parsed text holds \<open>diagramId\<close>.
\<close>

definition holdsId :: "jsRuntime \<Rightarrow> string \<Rightarrow> xmlPart \<Rightarrow> bool" where
  "holdsId rt diagramId part =
     (readable part \<and> xml part \<noteq> []
      \<and> querySelectorText rt (xml part) ''Id'' = Some diagramId)"

definition updateDiagramData ::
  "jsRuntime \<Rightarrow> string \<Rightarrow> xmlPart list \<Rightarrow> string \<Rightarrow> string \<Rightarrow> (jsError + unit) \<times> xmlPart list" where
  "updateDiagramData rt now customXmlParts diagramId mermaidCode =
     (case deleteFirst (holdsId rt diagramId) customXmlParts of
        Some remaining \<Rightarrow>
          (Inr (), remaining @ [\<lparr>xml = updatedDiagramXml diagramId mermaidCode now,
                                 readable = True\<rparr>])
      | None \<Rightarrow> (Inl (Error ''Diagram data not found for update''), customXmlParts))"




text \<open>The loop over the custom XML parts once a tag gave an identifier.\<close>

fun findDiagramByTag :: "jsRuntime \<Rightarrow> string \<Rightarrow> xmlPart list \<Rightarrow> DiagramData option" where
  "findDiagramByTag rt diagramId [] = None"
| "findDiagramByTag rt diagramId (xmlPart # parts) =
     (if readable xmlPart \<and> xml xmlPart \<noteq> [] then
        (case (querySelectorText rt (xml xmlPart) ''Id'',
               querySelectorText rt (xml xmlPart) ''Code'') of
           (Some idText, Some codeText) \<Rightarrow>
             if idText = diagramId
             then Some \<lparr>diagram_id = diagramId, code = codeText\<rparr>
             else findDiagramByTag rt diagramId parts
         | _ \<Rightarrow> findDiagramByTag rt diagramId parts)
      else findDiagramByTag rt diagramId parts)"



section \<open>Two-phase insertion (Word)\<close>


datatype asyncReply = Succeeded | Failed string | Threw





section \<open>Settings\<close>

datatype OfficePlatform = PowerPoint | Word | Unknown

datatype hostType = HostPowerPoint | HostWord | HostOther

definition detectOfficePlatform :: "bool \<Rightarrow> hostType \<Rightarrow> OfficePlatform" where
  "detectOfficePlatform isOfficeContext host =
     (if \<not> isOfficeContext then Unknown
      else (case host of
              HostPowerPoint \<Rightarrow> PowerPoint
            | HostWord \<Rightarrow> Word
            | HostOther \<Rightarrow> Unknown))"

datatype theme = ThemeDefault | ThemeDark | ThemeForest | ThemeBase | ThemeCustom

definition themeName :: "theme \<Rightarrow> string" where
  "themeName t =
     (case t of ThemeDefault \<Rightarrow> ''default'' | ThemeDark \<Rightarrow> ''dark'' | ThemeForest \<Rightarrow> ''forest''
      | ThemeBase \<Rightarrow> ''base'' | ThemeCustom \<Rightarrow> ''custom'')"

record MermaidSettings =
  fontFamily :: string
  fontSize :: real
  primaryColor :: string
  primaryTextColor :: string
  primaryBorderColor :: string
  lineColor :: string
  backgroundColor :: string
  secondaryColor :: string
  tertiaryColor :: string
  theme :: theme

definition settingsXml :: "jsRuntime \<Rightarrow> MermaidSettings \<Rightarrow> string \<Rightarrow> string" where
  "settingsXml rt settings updatedAt =
     xmlDeclaration @ NL @
     ''<MermaidSettings>'' @ NL @
     ''  <FontFamily><![CDATA['' @ fontFamily settings @ '']]></FontFamily>'' @ NL @
     ''  <FontSize>'' @ numberToString rt (fontSize settings) @ ''</FontSize>'' @ NL @
     ''  <PrimaryColor>'' @ primaryColor settings @ ''</PrimaryColor>'' @ NL @
     ''  <PrimaryTextColor>'' @ primaryTextColor settings @ ''</PrimaryTextColor>'' @ NL @
     ''  <PrimaryBorderColor>'' @ primaryBorderColor settings @ ''</PrimaryBorderColor>'' @ NL @
     ''  <LineColor>'' @ lineColor settings @ ''</LineColor>'' @ NL @
     ''  <BackgroundColor>'' @ backgroundColor settings @ ''</BackgroundColor>'' @ NL @
     ''  <SecondaryColor>'' @ secondaryColor settings @ ''</SecondaryColor>'' @ NL @
     ''  <TertiaryColor>'' @ tertiaryColor settings @ ''</TertiaryColor>'' @ NL @
     ''  <Theme>'' @ themeName (theme settings) @ ''</Theme>'' @ NL @
     ''  <UpdatedAt>'' @ updatedAt @ ''</UpdatedAt>'' @ NL @
     ''</MermaidSettings>''"

definition defaultSettings :: MermaidSettings where
  "defaultSettings =
     \<lparr>fontFamily = ''Arial, sans-serif'',
      fontSize = 16,
      primaryColor = ''#0078d4'',
      primaryTextColor = ''#000000'',
      primaryBorderColor = ''#0078d4'',
      lineColor = ''#000000'',
      backgroundColor = ''#ffffff'',
      secondaryColor = ''#e6f3ff'',
      tertiaryColor = ''#b3d9ff'',
      theme = ThemeDefault\<rparr>"

text \<open>
  A settings part is a part whose text contains the root marker.  The removal loop
  tests the marker on the parts it can read, and visits the parts from the last.
\<close>

definition hasSettingsMarker :: "xmlPart \<Rightarrow> bool" where
  "hasSettingsMarker xmlPart = str_includes (xml xmlPart) ''<MermaidSettings>''"

definition countSettingsParts :: "xmlPart list \<Rightarrow> nat" where
  "countSettingsParts customXmlParts = length (filter hasSettingsMarker customXmlParts)"

definition isSettingsPart :: "xmlPart \<Rightarrow> bool" where
  "isSettingsPart xmlPart =
     (readable xmlPart \<and> xml xmlPart \<noteq> [] \<and> hasSettingsMarker xmlPart)"

fun removeVisited :: "xmlPart list \<Rightarrow> xmlPart list" where
  "removeVisited [] = []"
| "removeVisited (xmlPart # earlier) =
     (if isSettingsPart xmlPart then removeVisited earlier
      else xmlPart # removeVisited earlier)"

definition removeExistingSettings :: "xmlPart list \<Rightarrow> xmlPart list" where
  "removeExistingSettings customXmlParts = rev (removeVisited (rev customXmlParts))"

definition saveSettings ::
  "jsRuntime \<Rightarrow> string \<Rightarrow> bool \<Rightarrow> hostType \<Rightarrow> xmlPart list \<Rightarrow> MermaidSettings
     \<Rightarrow> (jsError + unit) \<times> xmlPart list" where
  "saveSettings rt now isOfficeContext host customXmlParts settings =
     (if \<not> isOfficeContext then (Inr (), customXmlParts)
      else
        (let platform = detectOfficePlatform isOfficeContext host
         in if platform = PowerPoint
            then (Inr (), removeExistingSettings customXmlParts
                          @ [\<lparr>xml = settingsXml rt settings now, readable = True\<rparr>])
            else if platform = Word
            then (Inr (), removeExistingSettings customXmlParts
                          @ [\<lparr>xml = settingsXml rt settings now, readable = True\<rparr>])
            else (Inl (Error (''Unsupported platform for settings: '' @ ''Unknown'')),
                  customXmlParts)))"

section \<open>A runtime for the examples\<close>

text \<open>
  The examples below run the model with this runtime.  It agrees with the browser on
  the inputs they use: numbers written with digits only, attributes in double quotes,
  values separated by one space, strings without white space at their ends, the font
  size 16, and flat well-formed blocks whose text is plain or one CDATA section.
\<close>

fun digitsValue :: "nat \<Rightarrow> string \<Rightarrow> nat option" where
  "digitsValue acc [] = Some acc"
| "digitsValue acc (c # cs) =
     (case map_of (zip ''0123456789'' [0, 1, 2, 3, 4, 5, 6, 7, 8, 9]) c of
        None \<Rightarrow> None
      | Some d \<Rightarrow> digitsValue (10 * acc + d) cs)"

definition parseDigits :: "string \<Rightarrow> real option" where
  "parseDigits s = (if s = [] then None else map_option real (digitsValue 0 s))"

definition between :: "string \<Rightarrow> string \<Rightarrow> string \<Rightarrow> string option" where
  "between opening closing s =
     (case splitAtFirst s opening of
        None \<Rightarrow> None
      | Some (before, rest) \<Rightarrow>
          (case splitAtFirst rest closing of
             None \<Rightarrow> None
           | Some (body, after) \<Rightarrow> Some body))"

definition quotedAttribute :: "regex \<Rightarrow> string \<Rightarrow> string option" where
  \<open>quotedAttribute r s =
     (case between (case r of RxViewBox \<Rightarrow> ''viewBox="''
                    | RxWidthAttr \<Rightarrow> ''width="''
                    | RxHeightAttr \<Rightarrow> ''height="'') ''"'' s of
        None \<Rightarrow> None
      | Some v \<Rightarrow> if v = [] then None else Some v)\<close>

definition elementText :: "string \<Rightarrow> string \<Rightarrow> string option" where
  "elementText x t =
     (case between (''<'' @ t @ ''>'') (''</'' @ t @ ''>'') x of
        None \<Rightarrow> None
      | Some body \<Rightarrow>
          (if prefix ''<![CDATA['' body
           then (case splitAtFirst (drop (length ''<![CDATA['') body) '']]>'' of
                   None \<Rightarrow> Some body
                 | Some (text, rest) \<Rightarrow> Some text)
           else Some body))"

definition exampleRuntime :: jsRuntime where
  "exampleRuntime =
     \<lparr>parseFloat = parseDigits,
      matchGroup = quotedAttribute,
      splitSpaces = str_split CHR '' '',
      trim = (\<lambda>s. s),
      numberToString = (\<lambda>n. if n = 16 then ''16'' else ''NaN''),
      querySelectorText = elementText\<rparr>"


definition exampleBrowser :: browser where
  "exampleBrowser =
     \<lparr>imageLoads = (\<lambda>svg. str_includes svg ''<svg''),
      hasContext2d = True,
      contextErrorText = ''TypeError: ctx is null'',
      pngBase64 = (\<lambda>cv. ''iVBORw0KGgo='')\<rparr>"

section \<open>Shape matcher: the tolerance test\<close>

lemma withinTolerance_Some: "withinTolerance (Some x) (Some y) tol = (\<bar>x - y\<bar> \<le> tol)"
  by (simp add: withinTolerance_def)

lemma ratioAtLeast_Some:
  "0 < bound \<Longrightarrow> ratioAtLeast (Some x) (Some y) bound = (min x y / max x y \<ge> bound)"
  by (auto simp: ratioAtLeast_def)

text \<open>
  C7.  For two descriptors whose four fields parse to numbers, \<open>shapesApproximatelyMatch\<close>
  is true exactly when the two left and the two top coordinates differ by at most 5 and
  the smaller width over the larger, and the smaller height over the larger, are at
  least one half.
\<close>

theorem shapesApproximatelyMatch_iff:
  assumes "map (parseFloat rt) (str_split CHR '','' info1)
             = [Some left1, Some top1, Some width1, Some height1]"
    and "map (parseFloat rt) (str_split CHR '','' info2)
             = [Some left2, Some top2, Some width2, Some height2]"
  shows "shapesApproximatelyMatch rt info1 info2 \<longleftrightarrow>
           \<bar>left1 - left2\<bar> \<le> 5 \<and> \<bar>top1 - top2\<bar> \<le> 5
           \<and> min width1 width2 / max width1 width2 \<ge> 1 / 2
           \<and> min height1 height2 / max height1 height2 \<ge> 1 / 2"
  unfolding shapesApproximatelyMatch_def Let_def assms
  by (auto simp: withinTolerance_Some ratioAtLeast_Some)

lemma shapesApproximatelyMatch_malformed:
  "length (str_split CHR '','' info1) \<noteq> 4 \<or> length (str_split CHR '','' info2) \<noteq> 4
     \<Longrightarrow> \<not> shapesApproximatelyMatch rt info1 info2"
  by (auto simp: shapesApproximatelyMatch_def Let_def)

text \<open>
  The two examples of the specification: \<open>(10,10,100,100)\<close> matches
  \<open>(12,11,140,100)\<close> and does not match \<open>(20,10,100,100)\<close>.
\<close>

theorem shapesApproximatelyMatch_iff_witness:
  "shapesApproximatelyMatch exampleRuntime ''10,10,100,100'' ''12,11,140,100''
   \<and> \<not> shapesApproximatelyMatch exampleRuntime ''10,10,100,100'' ''20,10,100,100''"
proof -
  have a: "map (parseFloat exampleRuntime) (str_split CHR '','' ''10,10,100,100'')
             = [Some 10, Some 10, Some 100, Some 100]"
    by (simp add: exampleRuntime_def parseDigits_def)
  have b: "map (parseFloat exampleRuntime) (str_split CHR '','' ''12,11,140,100'')
             = [Some 12, Some 11, Some 140, Some 100]"
    by (simp add: exampleRuntime_def parseDigits_def)
  have c: "map (parseFloat exampleRuntime) (str_split CHR '','' ''20,10,100,100'')
             = [Some 20, Some 10, Some 100, Some 100]"
    by (simp add: exampleRuntime_def parseDigits_def)
  show ?thesis
    using shapesApproximatelyMatch_iff [OF a b] shapesApproximatelyMatch_iff [OF a c]
    by simp
qed

section \<open>Geometry planner: the planned size\<close>

lemma floor_applied:
  fixes a w h :: real
  assumes "0 < a" and "w / h = a \<or> (w < 144 \<and> h < 144)" and "h \<noteq> 0 \<or> (w < 144 \<and> h < 144)"
  shows "\<exists>w' h'. 0 < w' \<and> 0 < h' \<and> w' / h' = a \<and> (144 \<le> w' \<or> 144 \<le> h')
            \<and> (if w < 144 \<and> h < 144
                 then (if a > 1 then (144, 144 / a) else (144 * a, 144))
                 else (w, h)) = (w', h')"
proof (cases "w < 144 \<and> h < 144")
  case both: True
  show ?thesis
  proof (cases "a > 1")
    case True
    with both assms(1) show ?thesis
      by (intro exI [of _ 144] exI [of _ "144 / a"]) simp
  next
    case False
    with both assms(1) show ?thesis
      by (intro exI [of _ "144 * a"] exI [of _ 144]) simp
  qed
next
  case False
  with assms have r: "w / h = a" and h0: "h \<noteq> 0" by auto
  from r h0 have w: "w = a * h" by (simp add: field_simps)
  have "0 < h"
  proof (rule ccontr)
    assume "\<not> 0 < h"
    then have "h < 0" using h0 by simp
    then have "w < 0" using w assms(1) by (simp add: mult_pos_neg)
    with \<open>h < 0\<close> False show False by simp
  qed
  then have "0 < w" using w assms(1) by simp
  with \<open>0 < h\<close> r False show ?thesis by auto
qed

lemma calculateOptimalDiagramSize_unrounded:
  assumes "0 < svgWidth" and "0 < svgHeight"
  shows "\<exists>w h. 0 < w \<and> 0 < h \<and> w / h = svgWidth / svgHeight \<and> (144 \<le> w \<or> 144 \<le> h)
           \<and> calculateOptimalDiagramSize svgWidth svgHeight pageWidth pageHeight
                 marginLeft marginRight marginTop marginBottom
               = \<lparr>width = round w, height = round h\<rparr>"
proof -
  define a where "a = svgWidth / svgHeight"
  define aw where "aw = pageWidth - marginLeft - marginRight"
  define ah where "ah = pageHeight - marginTop - marginBottom"
  define fit where "fit = (if ah = 0 then aw < 0 else a > aw / ah)"
  define w0 where "w0 = (if fit then aw else ah * a)"
  define h0 where "h0 = (if fit then aw / a else ah)"
  have a: "0 < a" using assms by (simp add: a_def)
  have 1: "w0 / h0 = a \<or> (w0 < 144 \<and> h0 < 144)"
  proof (cases fit)
    case True
    show ?thesis
    proof (cases "aw = 0")
      case True
      with \<open>fit\<close> show ?thesis by (simp add: w0_def h0_def)
    next
      case False
      with \<open>fit\<close> a show ?thesis by (simp add: w0_def h0_def)
    qed
  next
    case False
    show ?thesis
    proof (cases "ah = 0")
      case True
      with \<open>\<not> fit\<close> show ?thesis by (simp add: w0_def h0_def)
    next
      case False
      with \<open>\<not> fit\<close> a show ?thesis by (simp add: w0_def h0_def)
    qed
  qed
  have 2: "h0 \<noteq> 0 \<or> (w0 < 144 \<and> h0 < 144)"
  proof (cases "h0 = 0")
    case True
    then have "w0 = 0" using a by (auto simp: w0_def h0_def split: if_splits)
    with True show ?thesis by simp
  next
    case False
    then show ?thesis by simp
  qed
  from floor_applied [OF a 1 2] obtain w h where
    wh: "0 < w" "0 < h" "w / h = a" "144 \<le> w \<or> 144 \<le> h"
    and eq: "(if w0 < 144 \<and> h0 < 144
                 then (if a > 1 then (144, 144 / a) else (144 * a, 144))
                 else (w0, h0)) = (w, h)" by blast
  have "calculateOptimalDiagramSize svgWidth svgHeight pageWidth pageHeight
                 marginLeft marginRight marginTop marginBottom
               = (case (if w0 < 144 \<and> h0 < 144
                 then (if a > 1 then (144, 144 / a) else (144 * a, 144))
                 else (w0, h0)) of (tw, th) \<Rightarrow> \<lparr>width = round tw, height = round th\<rparr>)"
    unfolding calculateOptimalDiagramSize_def Let_def a_def [symmetric] aw_def [symmetric]
      ah_def [symmetric] fit_def [symmetric]
    by (cases fit) (simp_all add: w0_def h0_def)
  also have "\<dots> = \<lparr>width = round w, height = round h\<rparr>"
    by (simp add: eq)
  finally show ?thesis using wh unfolding a_def by blast
qed

text \<open>
  C5, as amended.  For positive \<open>svgWidth\<close> and \<open>svgHeight\<close>, whatever the page and the
  margins, the returned width and height are the nearest integers to a pair of positive
  reals \<open>w\<close> and \<open>h\<close> whose ratio is exactly \<open>svgWidth / svgHeight\<close>: each returned side
  is within one half of it, and at least one returned side is 144 or more.
\<close>

theorem calculateOptimalDiagramSize_rounded_fit:
  assumes "0 < svgWidth" and "0 < svgHeight"
  shows "\<exists>w h. 0 < w \<and> 0 < h \<and> w / h = svgWidth / svgHeight
           \<and> calculateOptimalDiagramSize svgWidth svgHeight pageWidth pageHeight
                 marginLeft marginRight marginTop marginBottom
               = \<lparr>width = round w, height = round h\<rparr>
           \<and> \<bar>real_of_int (round w) - w\<bar> \<le> 1 / 2 \<and> \<bar>real_of_int (round h) - h\<bar> \<le> 1 / 2
           \<and> (144 \<le> round w \<or> 144 \<le> round h)"
proof -
  from calculateOptimalDiagramSize_unrounded [OF assms] obtain w h where
    wh: "0 < w" "0 < h" "w / h = svgWidth / svgHeight" "144 \<le> w \<or> 144 \<le> h"
    and eq: "calculateOptimalDiagramSize svgWidth svgHeight pageWidth pageHeight
                 marginLeft marginRight marginTop marginBottom
               = \<lparr>width = round w, height = round h\<rparr>"
    by blast
  have "144 \<le> round w \<or> 144 \<le> round h"
  proof -
    have "144 \<le> w \<Longrightarrow> 144 \<le> round w" using round_mono [of 144 w] by simp
    moreover have "144 \<le> h \<Longrightarrow> 144 \<le> round h" using round_mono [of 144 h] by simp
    ultimately show ?thesis using wh(4) by blast
  qed
  with wh eq of_int_round_abs_le [of w] of_int_round_abs_le [of h] show ?thesis by blast
qed

theorem calculateOptimalDiagramSize_rounded_fit_witness:
  "(0::real) < 3 \<and> (0::real) < 7 \<and>
   (\<exists>w h. 0 < w \<and> 0 < h \<and> w / h = (3::real) / 7
           \<and> calculateOptimalDiagramSize 3 7 612 792 72 72 72 72
               = \<lparr>width = round w, height = round h\<rparr>
           \<and> \<bar>real_of_int (round w) - w\<bar> \<le> 1 / 2 \<and> \<bar>real_of_int (round h) - h\<bar> \<le> 1 / 2
           \<and> (144 \<le> round w \<or> 144 \<le> round h))"
  using calculateOptimalDiagramSize_rounded_fit [of 3 7 612 792 72 72 72 72] by simp

text \<open>
  The claim as stated fails: a 3 by 7 diagram on a Letter page with one-inch margins is
  planned at 278 by 648, and 278 / 648 differs from 3 / 7 by more than one part in a
  thousand.
\<close>

lemma calculateOptimalDiagramSize_3_7:
  "calculateOptimalDiagramSize 3 7 612 792 72 72 72 72 = \<lparr>width = 278, height = 648\<rparr>"
  by (simp add: calculateOptimalDiagramSize_def Let_def round_def)

theorem calculateOptimalDiagramSize_ratio_counterexample:
  "\<not> \<bar>real_of_int (width (calculateOptimalDiagramSize 3 7 612 792 72 72 72 72))
        / real_of_int (height (calculateOptimalDiagramSize 3 7 612 792 72 72 72 72))
        - 3 / 7\<bar> \<le> (3 / 7) / 1000000"
  by (simp add: calculateOptimalDiagramSize_def Let_def round_def)

section \<open>Raster conversion at 300 DPI\<close>

text \<open>
  C6.  When the browser decodes the SVG markup and the canvas has a 2D context,
  \<open>convertSvgToPngForWord\<close> resolves with pixel dimensions
  \<open>(round (Tw * 300 / 72), round (Th * 300 / 72))\<close>, and the encoded canvas has that
  size and was painted twice: first a white rectangle over the whole canvas, then the
  image over the whole canvas.
\<close>

theorem convertSvgToPngForWord_pixels:
  assumes "imageLoads br svgString" and "hasContext2d br"
  shows "\<exists>cv. convertSvgToPngForWord rt br svgString targetDisplayWidth targetDisplayHeight
              = Inr \<lparr>width = round (targetDisplayWidth * 300 / 72),
                     height = round (targetDisplayHeight * 300 / 72),
                     base64 = pngBase64 br cv\<rparr>
           \<and> canvasWidth cv = round (targetDisplayWidth * 300 / 72)
           \<and> canvasHeight cv = round (targetDisplayHeight * 300 / 72)
           \<and> painted cv = [FillRect ''white'' 0 0 (canvasWidth cv) (canvasHeight cv),
                            DrawImage svgString 0 0 (canvasWidth cv) (canvasHeight cv)]"
proof -
  define cw where "cw = round (targetDisplayWidth * 300 / 72)"
  define ch where "ch = round (targetDisplayHeight * 300 / 72)"
  define cv where "cv = \<lparr>canvasWidth = cw, canvasHeight = ch,
                         painted = [FillRect ''white'' 0 0 cw ch, DrawImage svgString 0 0 cw ch]\<rparr>"
  have w: "round (targetDisplayWidth * (300 / 72)) = cw" by (simp add: cw_def mult.commute)
  have h: "round (targetDisplayHeight * (300 / 72)) = ch" by (simp add: ch_def mult.commute)
  have "convertSvgToPngForWord rt br svgString targetDisplayWidth targetDisplayHeight
          = Inr \<lparr>width = cw, height = ch, base64 = pngBase64 br cv\<rparr>"
    using assms unfolding convertSvgToPngForWord_def Let_def w h cv_def by simp
  moreover have "canvasWidth cv = cw" "canvasHeight cv = ch"
    "painted cv = [FillRect ''white'' 0 0 (canvasWidth cv) (canvasHeight cv),
                   DrawImage svgString 0 0 (canvasWidth cv) (canvasHeight cv)]"
    by (simp_all add: cv_def)
  ultimately show ?thesis unfolding cw_def ch_def by blast
qed

text \<open>A 468 by 351 point target gives 1950 by 1463 pixels.\<close>

theorem convertSvgToPngForWord_pixels_witness:
  "imageLoads exampleBrowser ''<svg></svg>'' \<and> hasContext2d exampleBrowser \<and>
   (\<exists>cv. convertSvgToPngForWord exampleRuntime exampleBrowser ''<svg></svg>'' 468 351
              = Inr \<lparr>width = 1950, height = 1463, base64 = pngBase64 exampleBrowser cv\<rparr>
           \<and> canvasWidth cv = 1950 \<and> canvasHeight cv = 1463
           \<and> painted cv = [FillRect ''white'' 0 0 (canvasWidth cv) (canvasHeight cv),
                            DrawImage ''<svg></svg>'' 0 0 (canvasWidth cv) (canvasHeight cv)])"
proof -
  have l: "imageLoads exampleBrowser ''<svg></svg>''" by (simp add: exampleBrowser_def)
  have c: "hasContext2d exampleBrowser" by (simp add: exampleBrowser_def)
  have rw: "round (468 * 300 / 72 :: real) = 1950" by (simp add: round_def)
  have rh: "round (351 * 300 / 72 :: real) = 1463" by (simp add: round_def)
  from convertSvgToPngForWord_pixels [OF l c, of exampleRuntime 468 351] l c
  show ?thesis unfolding rw rh by blast
qed

section \<open>Dimension parsing\<close>

lemma parsedPositive_Some:
  "parsedPositive a b = Some d \<Longrightarrow> 0 < width d \<and> 0 < height d"
  by (auto simp: parsedPositive_def split: option.splits if_splits)

lemma viewBoxAttempt_None_iff:
  "viewBoxAttempt rt svgString = None \<longleftrightarrow>
     (case matchGroup rt RxViewBox svgString of
        None \<Rightarrow> True
      | Some vb \<Rightarrow>
          length (splitSpaces rt vb) \<noteq> 4
          \<or> (case (parseFloat rt (splitSpaces rt vb ! 2), parseFloat rt (splitSpaces rt vb ! 3)) of
                (Some w, Some h) \<Rightarrow> w \<le> 0 \<or> h \<le> 0
              | _ \<Rightarrow> True))"
  by (auto simp: viewBoxAttempt_def Let_def parsedPositive_def split: option.splits)

text \<open>
  C9.  \<open>parseSvgViewBox\<close> returns a value for every string.  A \<open>viewBox\<close> declaration
  of four values whose last two parse to positive numbers gives these two numbers.
  When the declaration is absent or malformed (\<open>viewBoxAttempt\<close> is \<open>None\<close>, spelled
  out in \<open>viewBoxAttempt_None_iff\<close>), \<open>width\<close> and \<open>height\<close> attributes that parse to
  positive numbers give the result.  When both attempts fail the result is the sentinel
  \<open>{width: 0, height: 0}\<close>.  Every result other than the sentinel has two positive
  sides.
\<close>

theorem parseSvgViewBox_total:
  "(\<forall>vb w h. matchGroup rt RxViewBox svgString = Some vb
        \<and> length (splitSpaces rt vb) = 4
        \<and> parseFloat rt (splitSpaces rt vb ! 2) = Some w
        \<and> parseFloat rt (splitSpaces rt vb ! 3) = Some h \<and> 0 < w \<and> 0 < h
      \<longrightarrow> parseSvgViewBox rt svgString = \<lparr>width = w, height = h\<rparr>)
   \<and> (\<forall>wm hm w h. viewBoxAttempt rt svgString = None
        \<and> matchGroup rt RxWidthAttr svgString = Some wm
        \<and> matchGroup rt RxHeightAttr svgString = Some hm
        \<and> parseFloat rt wm = Some w \<and> parseFloat rt hm = Some h \<and> 0 < w \<and> 0 < h
      \<longrightarrow> parseSvgViewBox rt svgString = \<lparr>width = w, height = h\<rparr>)
   \<and> (viewBoxAttempt rt svgString = None \<and> attributeAttempt rt svgString = None
      \<longrightarrow> parseSvgViewBox rt svgString = \<lparr>width = 0, height = 0\<rparr>)
   \<and> (parseSvgViewBox rt svgString = \<lparr>width = 0, height = 0\<rparr>
       \<or> 0 < width (parseSvgViewBox rt svgString) \<and> 0 < height (parseSvgViewBox rt svgString))"
proof (intro conjI allI impI)
  fix vb w h
  assume "matchGroup rt RxViewBox svgString = Some vb
        \<and> length (splitSpaces rt vb) = 4
        \<and> parseFloat rt (splitSpaces rt vb ! 2) = Some w
        \<and> parseFloat rt (splitSpaces rt vb ! 3) = Some h \<and> 0 < w \<and> 0 < h"
  then show "parseSvgViewBox rt svgString = \<lparr>width = w, height = h\<rparr>"
    by (simp add: parseSvgViewBox_def viewBoxAttempt_def parsedPositive_def)
next
  fix wm hm w h
  assume "viewBoxAttempt rt svgString = None
        \<and> matchGroup rt RxWidthAttr svgString = Some wm
        \<and> matchGroup rt RxHeightAttr svgString = Some hm
        \<and> parseFloat rt wm = Some w \<and> parseFloat rt hm = Some h \<and> 0 < w \<and> 0 < h"
  then show "parseSvgViewBox rt svgString = \<lparr>width = w, height = h\<rparr>"
    by (simp add: parseSvgViewBox_def attributeAttempt_def parsedPositive_def)
next
  assume "viewBoxAttempt rt svgString = None \<and> attributeAttempt rt svgString = None"
  then show "parseSvgViewBox rt svgString = \<lparr>width = 0, height = 0\<rparr>"
    by (simp add: parseSvgViewBox_def)
next
  show "parseSvgViewBox rt svgString = \<lparr>width = 0, height = 0\<rparr>
       \<or> 0 < width (parseSvgViewBox rt svgString) \<and> 0 < height (parseSvgViewBox rt svgString)"
  proof (cases "viewBoxAttempt rt svgString")
    case (Some d)
    then have "0 < width d \<and> 0 < height d"
      by (auto simp: viewBoxAttempt_def Let_def split: option.splits if_splits
               dest: parsedPositive_Some)
    with Some show ?thesis by (simp add: parseSvgViewBox_def)
  next
    case None
    show ?thesis
    proof (cases "attributeAttempt rt svgString")
      case (Some d)
      then have "0 < width d \<and> 0 < height d"
        by (auto simp: attributeAttempt_def split: option.splits dest: parsedPositive_Some)
      with None Some show ?thesis by (simp add: parseSvgViewBox_def)
    next
      case n: None
      with None show ?thesis by (simp add: parseSvgViewBox_def)
    qed
  qed
qed

lemmas example_simps = exampleRuntime_def quotedAttribute_def between_def parseDigits_def
  viewBoxAttempt_def attributeAttempt_def parsedPositive_def

text \<open>
  A declaration of four values wins over the attributes; a comma-separated declaration
  falls back to the attributes; markup with neither gives the sentinel.
\<close>

theorem parseSvgViewBox_total_witness:
  \<open>parseSvgViewBox exampleRuntime ''<svg viewBox="0 0 100 50" width="30" height="20">''
     = \<lparr>width = 100, height = 50\<rparr>
   \<and> parseSvgViewBox exampleRuntime ''<svg viewBox="0,0,100,50" width="30" height="20">''
     = \<lparr>width = 30, height = 20\<rparr>
   \<and> parseSvgViewBox exampleRuntime ''<svg>'' = \<lparr>width = 0, height = 0\<rparr>\<close>
proof -
  let ?s1 = \<open>''<svg viewBox="0 0 100 50" width="30" height="20">''\<close>
  let ?s2 = \<open>''<svg viewBox="0,0,100,50" width="30" height="20">''\<close>
  have m1: "matchGroup exampleRuntime RxViewBox ?s1 = Some ''0 0 100 50''"
    by (simp add: example_simps)
  have h1: "matchGroup exampleRuntime RxViewBox ?s1 = Some ''0 0 100 50''
        \<and> length (splitSpaces exampleRuntime ''0 0 100 50'') = 4
        \<and> parseFloat exampleRuntime (splitSpaces exampleRuntime ''0 0 100 50'' ! 2) = Some 100
        \<and> parseFloat exampleRuntime (splitSpaces exampleRuntime ''0 0 100 50'' ! 3) = Some 50
        \<and> (0::real) < 100 \<and> (0::real) < 50"
    using m1 by (simp add: example_simps)
  have h2: "viewBoxAttempt exampleRuntime ?s2 = None
        \<and> matchGroup exampleRuntime RxWidthAttr ?s2 = Some ''30''
        \<and> matchGroup exampleRuntime RxHeightAttr ?s2 = Some ''20''
        \<and> parseFloat exampleRuntime ''30'' = Some 30
        \<and> parseFloat exampleRuntime ''20'' = Some 20 \<and> (0::real) < 30 \<and> (0::real) < 20"
    by (simp add: example_simps)
  have h3: "viewBoxAttempt exampleRuntime ''<svg>'' = None
        \<and> attributeAttempt exampleRuntime ''<svg>'' = None"
    by (simp add: example_simps)
  from parseSvgViewBox_total [of exampleRuntime ?s1] h1
  have r1: "parseSvgViewBox exampleRuntime ?s1 = \<lparr>width = 100, height = 50\<rparr>" by blast
  from parseSvgViewBox_total [of exampleRuntime ?s2] h2
  have r2: "parseSvgViewBox exampleRuntime ?s2 = \<lparr>width = 30, height = 20\<rparr>" by blast
  from parseSvgViewBox_total [of exampleRuntime "''<svg>''"] h3
  have r3: "parseSvgViewBox exampleRuntime ''<svg>'' = \<lparr>width = 0, height = 0\<rparr>" by blast
  from r1 r2 r3 show ?thesis by blast
qed

section \<open>Metadata store: update\<close>

lemma str_includes_prefix: "prefix needle hay \<Longrightarrow> str_includes hay needle"
  by (cases hay) auto

lemma str_includes_append: "str_includes (before @ needle @ after) needle"
  by (induction before) (auto simp: str_includes_prefix)

lemma deleteFirst_None: "(\<forall>p\<in>set parts. \<not> P p) \<Longrightarrow> deleteFirst P parts = None"
  by (induction parts) auto


lemmas example_xml_simps = exampleRuntime_def elementText_def between_def
  insertedDiagramXml_def updatedDiagramXml_def wordDiagramXml_def xmlDeclaration_def NL_def

text \<open>
  When no part of the store passes the test of the update scan (no readable part whose
  \<open>Id\<close> element is the identifier on the PowerPoint path, no readable part whose text
  contains the identifier element on the Word path), the update raises the not-found
  error and the store is the one it was given.
\<close>

lemma update_unknown_id_not_found:
  "((\<forall>p\<in>set parts. \<not> holdsId rt diagramId p)
      \<longrightarrow> updateDiagramData rt now parts diagramId mermaidCode
            = (Inl (Error ''Diagram data not found for update''), parts))
   \<and> ((\<forall>p\<in>set parts. \<not> mentionsId diagramId p)
      \<longrightarrow> WordInserter_updateDiagram rt br now parts diagramId mermaidCode svgContent
            = (Inl (Error (''Failed to update diagram: Diagram with ID '' @ diagramId
                           @ '' not found. It may have been deleted or moved.'')), parts))"
  by (simp add: updateDiagramData_def WordInserter_updateDiagram_def deleteFirst_None)

text \<open>A store that holds \<open>d1\<close> only, updated at \<open>d2\<close>, on both paths.\<close>

lemma update_unknown_id_not_found_example:
  "updateDiagramData exampleRuntime ''t1''
       [\<lparr>xml = insertedDiagramXml ''d1'' ''graph TD'' True ''t0'', readable = True\<rparr>]
       ''d2'' ''graph LR''
     = (Inl (Error ''Diagram data not found for update''),
        [\<lparr>xml = insertedDiagramXml ''d1'' ''graph TD'' True ''t0'', readable = True\<rparr>])
   \<and> WordInserter_updateDiagram exampleRuntime exampleBrowser ''t1''
       [\<lparr>xml = wordDiagramXml ''d1'' ''graph TD'' ''t0'', readable = True\<rparr>]
       ''d2'' ''graph LR'' ''<svg></svg>''
     = (Inl (Error ''Failed to update diagram: Diagram with ID d2 not found. It may have been deleted or moved.''),
        [\<lparr>xml = wordDiagramXml ''d1'' ''graph TD'' ''t0'', readable = True\<rparr>])"
proof -
  have a: "\<forall>p\<in>set [\<lparr>xml = insertedDiagramXml ''d1'' ''graph TD'' True ''t0'', readable = True\<rparr>].
             \<not> holdsId exampleRuntime ''d2'' p"
    by (simp add: holdsId_def example_xml_simps)
  have b: "\<forall>p\<in>set [\<lparr>xml = wordDiagramXml ''d1'' ''graph TD'' ''t0'', readable = True\<rparr>].
             \<not> mentionsId ''d2'' p"
    by (simp add: mentionsId_def example_xml_simps)
  from update_unknown_id_not_found
         [of "[\<lparr>xml = insertedDiagramXml ''d1'' ''graph TD'' True ''t0'', readable = True\<rparr>]"
             exampleRuntime "''d2''" "''t1''" "''graph LR''"] a
  have 1: "updateDiagramData exampleRuntime ''t1''
       [\<lparr>xml = insertedDiagramXml ''d1'' ''graph TD'' True ''t0'', readable = True\<rparr>]
       ''d2'' ''graph LR''
     = (Inl (Error ''Diagram data not found for update''),
        [\<lparr>xml = insertedDiagramXml ''d1'' ''graph TD'' True ''t0'', readable = True\<rparr>])"
    by blast
  from update_unknown_id_not_found
         [of "[\<lparr>xml = wordDiagramXml ''d1'' ''graph TD'' ''t0'', readable = True\<rparr>]"
             exampleRuntime "''d2''" "''t1''" "''graph LR''" exampleBrowser "''<svg></svg>''"] b
  have 2: "WordInserter_updateDiagram exampleRuntime exampleBrowser ''t1''
       [\<lparr>xml = wordDiagramXml ''d1'' ''graph TD'' ''t0'', readable = True\<rparr>]
       ''d2'' ''graph LR'' ''<svg></svg>''
     = (Inl (Error (''Failed to update diagram: Diagram with ID '' @ ''d2''
                           @ '' not found. It may have been deleted or moved.'')),
        [\<lparr>xml = wordDiagramXml ''d1'' ''graph TD'' ''t0'', readable = True\<rparr>])"
    by blast
  from 1 2 show ?thesis by simp
qed

text \<open>
  C3.  An update for an identifier that no record of the store carries raises the
  not-found error and leaves the store as it is: this fails on the code.  The scans that
  read a record test the root marker \<open><MermaidDiagram>\<close> (Word) or ask for a \<open>Code\<close>
  element next to the \<open>Id\<close> element (PowerPoint); the two update scans test the
  identifier element only, so a foreign part with such an element is taken for the
  record.  In the store that holds \<open><Note><Id>d1</Id></Note>\<close> only, both readers find
  no record for \<open>d1\<close>, and both updates succeed, delete the foreign part and add a block
  for \<open>d1\<close>.
\<close>

theorem update_foreign_part_replaced:
  "findDiagramByTag exampleRuntime ''d1''
       [\<lparr>xml = ''<Note><Id>d1</Id></Note>'', readable = True\<rparr>] = None
   \<and> findWordMetadata ''d1'' [\<lparr>xml = ''<Note><Id>d1</Id></Note>'', readable = True\<rparr>] = None
   \<and> updateDiagramData exampleRuntime ''t1''
       [\<lparr>xml = ''<Note><Id>d1</Id></Note>'', readable = True\<rparr>] ''d1'' ''graph LR''
     = (Inr (), [\<lparr>xml = updatedDiagramXml ''d1'' ''graph LR'' ''t1'', readable = True\<rparr>])
   \<and> WordInserter_updateDiagram exampleRuntime exampleBrowser ''t1''
       [\<lparr>xml = ''<Note><Id>d1</Id></Note>'', readable = True\<rparr>] ''d1'' ''graph LR''
       ''<svg></svg>''
     = (Inr (), [\<lparr>xml = wordDiagramXml ''d1'' ''graph LR'' ''t1'', readable = True\<rparr>])"
proof -
  have 1: "findDiagramByTag exampleRuntime ''d1''
       [\<lparr>xml = ''<Note><Id>d1</Id></Note>'', readable = True\<rparr>] = None"
    by (simp add: exampleRuntime_def elementText_def between_def)
  have 2: "findWordMetadata ''d1'' [\<lparr>xml = ''<Note><Id>d1</Id></Note>'', readable = True\<rparr>] = None"
    by simp
  have h: "holdsId exampleRuntime ''d1'' \<lparr>xml = ''<Note><Id>d1</Id></Note>'', readable = True\<rparr>"
    by (simp add: holdsId_def exampleRuntime_def elementText_def between_def)
  have 3: "updateDiagramData exampleRuntime ''t1''
       [\<lparr>xml = ''<Note><Id>d1</Id></Note>'', readable = True\<rparr>] ''d1'' ''graph LR''
     = (Inr (), [\<lparr>xml = updatedDiagramXml ''d1'' ''graph LR'' ''t1'', readable = True\<rparr>])"
    using h by (simp add: updateDiagramData_def)
  have m: "mentionsId ''d1'' \<lparr>xml = ''<Note><Id>d1</Id></Note>'', readable = True\<rparr>"
    by (simp add: mentionsId_def)
  have d: "parseSvgViewBox exampleRuntime ''<svg></svg>'' = \<lparr>width = 0, height = 0\<rparr>"
    by (simp add: parseSvgViewBox_def viewBoxAttempt_def attributeAttempt_def
          exampleRuntime_def quotedAttribute_def between_def)
  have z: "calculateOptimalDiagramSize 800 600 612 792 72 72 72 72 = \<lparr>width = 468, height = 351\<rparr>"
    by (simp add: calculateOptimalDiagramSize_def Let_def round_def)
  have c: "\<exists>png. convertSvgToPngForWord exampleRuntime exampleBrowser ''<svg></svg>'' 468 351 = Inr png"
    by (simp add: convertSvgToPngForWord_def Let_def exampleBrowser_def)
  then obtain png where
    c': "convertSvgToPngForWord exampleRuntime exampleBrowser ''<svg></svg>'' 468 351 = Inr png"
    by blast
  have 4: "WordInserter_updateDiagram exampleRuntime exampleBrowser ''t1''
       [\<lparr>xml = ''<Note><Id>d1</Id></Note>'', readable = True\<rparr>] ''d1'' ''graph LR''
       ''<svg></svg>''
     = (Inr (), [\<lparr>xml = wordDiagramXml ''d1'' ''graph LR'' ''t1'', readable = True\<rparr>])"
    using m by (simp add: WordInserter_updateDiagram_def getDocumentPageDimensions_def d z c'
          storeDiagramMetadata_def)
  from 1 2 3 4 show ?thesis by blast
qed




section \<open>Metadata store: reading back what was stored (Word)\<close>

text \<open>
  The closing marker \<open>]]></Code>\<close> does not overlap itself, so the first closing marker
  behind a text that does not contain it is the one appended to the text.
\<close>

lemma overlap_border:
  assumes "prefix s (u @ s @ post)" and "u \<noteq> []" and "\<not> prefix s u"
  shows "\<exists>k. 0 < k \<and> k < length s \<and> drop k s = take (length s - k) s"
proof -
  from assms(1,3) have "\<exists>w. s = u @ w \<and> prefix w (s @ post)"
    by (auto simp: prefix_append)
  then obtain w where w: "s = u @ w" and pw: "prefix w (s @ post)" by blast
  have wne: "w \<noteq> []" using w assms(3) by auto
  have len: "length s = length u + length w" by (simp add: w)
  from pw obtain r where r: "s @ post = w @ r" by (auto simp: prefix_def)
  have "take (length w) (s @ post) = take (length w) (w @ r)" by (simp only: r)
  then have tk: "take (length w) s = w" by (simp add: len)
  have dr: "drop (length u) s = w" by (simp add: w)
  have k0: "0 < length u" using assms(2) by simp
  have k1: "length u < length s" using len wne by simp
  have "drop (length u) s = take (length s - length u) s"
    by (simp add: dr len tk)
  with k0 k1 show ?thesis by blast
qed

lemma closing_marker_no_border:
  assumes "0 < k" and "k < length '']]></Code>''"
  shows "drop k '']]></Code>'' \<noteq> take (length '']]></Code>'' - k) '']]></Code>''"
proof -
  have l: "length '']]></Code>'' = 10" by simp
  from assms consider "k = 1" | "k = 2" | "k = 3" | "k = 4" | "k = 5" | "k = 6" | "k = 7"
    | "k = 8" | "k = 9" unfolding l by linarith
  then show ?thesis unfolding l by cases simp_all
qed

lemma splitAtFirst_skip:
  "c \<notin> set d \<Longrightarrow> splitAtFirst (d @ y) (c # n)
      = map_option (\<lambda>(before, after). (d @ before, after)) (splitAtFirst y (c # n))"
proof (induction d)
  case Nil
  show ?case by (cases "splitAtFirst y (c # n)") auto
next
  case (Cons x d)
  then show ?case by (cases "splitAtFirst y (c # n)") auto
qed

lemma splitAtFirst_unbordered:
  assumes nb: "\<And>k. 0 < k \<Longrightarrow> k < length n \<Longrightarrow> drop k n \<noteq> take (length n - k) n"
    and ne: "n \<noteq> []"
    and ni: "\<not> str_includes src n"
  shows "splitAtFirst (src @ n @ post) n = Some (src, post)"
  using ni
proof (induction src)
  case Nil
  from ne obtain x xs where n: "n = x # xs" by (cases n) auto
  show ?case by (simp add: n)
next
  case (Cons c cs)
  then have np: "\<not> prefix n (c # cs)" and ni': "\<not> str_includes cs n"
    by auto
  have np2: "\<not> prefix n ((c # cs) @ n @ post)"
  proof
    assume "prefix n ((c # cs) @ n @ post)"
    from overlap_border [OF this _ np]
    have "\<exists>k. 0 < k \<and> k < length n \<and> drop k n = take (length n - k) n" by blast
    with nb show False by blast
  qed
  have "splitAtFirst ((c # cs) @ n @ post) n
          = map_option (\<lambda>(before, after). (c # before, after)) (splitAtFirst (cs @ n @ post) n)"
    using np2 by simp
  also have "\<dots> = Some (c # cs, post)"
    by (simp add: Cons.IH [OF ni'])
  finally show ?case .
qed

lemma splitAtFirst_closing_marker:
  "\<not> str_includes src '']]></Code>''
     \<Longrightarrow> splitAtFirst (src @ '']]></Code>'' @ post) '']]></Code>'' = Some (src, post)"
  by (rule splitAtFirst_unbordered [OF closing_marker_no_border]) simp_all

lemma matchCodeCData_wordDiagramXml:
  assumes "CHR ''<'' \<notin> set diagramId" and "\<not> str_includes mermaidCode '']]></Code>''"
  shows "matchCodeCData (wordDiagramXml diagramId mermaidCode createdAt) = Some mermaidCode"
proof -
  define tail where "tail = NL @ ''  <CreatedAt>'' @ createdAt @ ''</CreatedAt>'' @ NL
                              @ ''</MermaidDiagram>''"
  define rest where "rest = mermaidCode @ '']]></Code>'' @ tail"
  define mid where "mid = (''</Id>'' @ NL @ ''  '') @ ''<Code><![CDATA['' @ rest"
  have x: "wordDiagramXml diagramId mermaidCode createdAt
             = (xmlDeclaration @ NL @ ''<MermaidDiagram>'' @ NL @ ''  <Id>'') @ diagramId @ mid"
    by (simp add: wordDiagramXml_def rest_def tail_def mid_def)
  have t: "splitAtFirst mid ''<Code><![CDATA['' = Some (''</Id>'' @ NL @ ''  '', rest)"
    by (simp add: mid_def NL_def)
  have d: "splitAtFirst (diagramId @ mid) ''<Code><![CDATA[''
             = Some (diagramId @ ''</Id>'' @ NL @ ''  '', rest)"
    using assms(1) by (simp add: splitAtFirst_skip t)
  have h: "\<exists>before. splitAtFirst (wordDiagramXml diagramId mermaidCode createdAt) ''<Code><![CDATA[''
             = Some (before, rest)"
    unfolding x by (simp add: xmlDeclaration_def NL_def d)
  then obtain before where
    b: "splitAtFirst (wordDiagramXml diagramId mermaidCode createdAt) ''<Code><![CDATA[''
             = Some (before, rest)" by blast
  have c: "splitAtFirst rest '']]></Code>'' = Some (mermaidCode, tail)"
    unfolding rest_def by (rule splitAtFirst_closing_marker [OF assms(2)])
  show ?thesis by (simp add: matchCodeCData_def b c)
qed

lemma findWordMetadata_skip:
  "\<forall>p\<in>set parts. \<not> mentionsId diagramId p
     \<Longrightarrow> findWordMetadata diagramId (parts @ later) = findWordMetadata diagramId later"
  by (induction parts) (auto simp: mentionsId_def)

text \<open>
  A source text without \<open>]]></Code>\<close> reads back as it was stored, when the identifier
  has no \<open><\<close> and no earlier part mentions the identifier.
\<close>

lemma WordInserter_roundtrip:
  assumes "CHR ''<'' \<notin> set diagramId"
    and "\<not> str_includes mermaidCode '']]></Code>''"
    and "\<forall>p\<in>set customXmlParts. \<not> mentionsId diagramId p"
  shows "WordInserter_getSelectedDiagram
           (Some [\<lparr>altTextDescription = ''MERMAID_ID:'' @ diagramId\<rparr>])
           (storeDiagramMetadata now customXmlParts diagramId mermaidCode)
         = Some \<lparr>diagram_id = diagramId, code = mermaidCode\<rparr>"
proof -
  let ?x = "wordDiagramXml diagramId mermaidCode now"
  have root: "str_includes ?x ''<MermaidDiagram>''"
    using str_includes_append [of "xmlDeclaration @ NL" "''<MermaidDiagram>''"]
    by (simp add: wordDiagramXml_def)
  have ident: "str_includes ?x (''<Id>'' @ diagramId @ ''</Id>'')"
    using str_includes_append [of "xmlDeclaration @ NL @ ''<MermaidDiagram>'' @ NL @ ''  ''"
        "''<Id>'' @ diagramId @ ''</Id>''"]
    by (simp add: wordDiagramXml_def)
  have "findWordMetadata diagramId [\<lparr>xml = ?x, readable = True\<rparr>]
          = Some \<lparr>diagram_id = diagramId, code = mermaidCode\<rparr>"
    using root ident by (simp add: matchCodeCData_wordDiagramXml [OF assms(1,2)])
  then have "findWordMetadata diagramId (storeDiagramMetadata now customXmlParts diagramId mermaidCode)
          = Some \<lparr>diagram_id = diagramId, code = mermaidCode\<rparr>"
    by (simp add: storeDiagramMetadata_def findWordMetadata_skip [OF assms(3)])
  then show ?thesis
    by (simp add: WordInserter_getSelectedDiagram_def)
qed

text \<open>
  C1.  The source text is stored between \<open><![CDATA[\<close> and \<open>]]>\<close> as it is, and read
  back up to the first \<open>]]></Code>\<close>.  A source text that contains this sequence is
  stored and read back cut short: the record stored for
  \<open>graph TD; A[x]]></Code>y] --> B\<close> reads back as \<open>graph TD; A[x\<close>.
\<close>

theorem WordInserter_roundtrip_truncates:
  "WordInserter_getSelectedDiagram
       (Some [\<lparr>altTextDescription = ''MERMAID_ID:mermaid-k3x9q2a1b''\<rparr>])
       (storeDiagramMetadata ''2024-01-01T00:00:00.000Z'' [] ''mermaid-k3x9q2a1b''
          ''graph TD; A[x]]></Code>y] --> B'')
     = Some \<lparr>diagram_id = ''mermaid-k3x9q2a1b'', code = ''graph TD; A[x''\<rparr>"
  by (simp add: WordInserter_getSelectedDiagram_def storeDiagramMetadata_def
        wordDiagramXml_def xmlDeclaration_def NL_def matchCodeCData_def)

section \<open>Settings: one block per document\<close>

lemma removeVisited_filter: "removeVisited parts = filter (\<lambda>p. \<not> isSettingsPart p) parts"
  by (induction parts) auto

lemma removeExistingSettings_filter:
  "removeExistingSettings parts = filter (\<lambda>p. \<not> isSettingsPart p) parts"
  by (simp add: removeExistingSettings_def removeVisited_filter rev_filter)

lemma settingsXml_marker: "hasSettingsMarker \<lparr>xml = settingsXml rt settings now, readable = r\<rparr>"
proof -
  have "settingsXml rt settings now
          = (xmlDeclaration @ NL) @ ''<MermaidSettings>'' @ drop (length (xmlDeclaration @ NL @ ''<MermaidSettings>'')) (settingsXml rt settings now)"
    by (simp add: settingsXml_def)
  then have "str_includes (settingsXml rt settings now) ''<MermaidSettings>''"
    using str_includes_append [of "xmlDeclaration @ NL" "''<MermaidSettings>''"] by metis
  then show ?thesis by (simp add: hasSettingsMarker_def)
qed

text \<open>
  C10, as amended.  On the PowerPoint and on the Word path, when every part whose text
  contains \<open><MermaidSettings>\<close> can be read, \<open>saveSettings\<close> succeeds, deletes all
  these parts, keeps the others in order and appends the one new settings part: the
  document then has exactly one part with the marker.
\<close>

theorem saveSettings_single_block:
  assumes "host = HostPowerPoint \<or> host = HostWord"
    and "\<forall>p\<in>set parts. hasSettingsMarker p \<longrightarrow> readable p"
  shows "saveSettings rt now True host parts settings
           = (Inr (), filter (\<lambda>p. \<not> hasSettingsMarker p) parts
                      @ [\<lparr>xml = settingsXml rt settings now, readable = True\<rparr>])
         \<and> countSettingsParts (snd (saveSettings rt now True host parts settings)) = 1"
proof -
  have marker: "\<And>p. hasSettingsMarker p \<Longrightarrow> xml p \<noteq> []"
    by (auto simp: hasSettingsMarker_def)
  have "filter (\<lambda>p. \<not> isSettingsPart p) parts = filter (\<lambda>p. \<not> hasSettingsMarker p) parts"
    using assms(2) marker by (intro filter_cong) (auto simp: isSettingsPart_def)
  then have eq: "saveSettings rt now True host parts settings
           = (Inr (), filter (\<lambda>p. \<not> hasSettingsMarker p) parts
                      @ [\<lparr>xml = settingsXml rt settings now, readable = True\<rparr>])"
    using assms(1)
    by (auto simp: saveSettings_def detectOfficePlatform_def removeExistingSettings_filter)
  have "filter hasSettingsMarker (filter (\<lambda>p. \<not> hasSettingsMarker p) parts) = []"
    by (induction parts) auto
  then have "countSettingsParts (snd (saveSettings rt now True host parts settings)) = 1"
    by (simp add: eq countSettingsParts_def settingsXml_marker)
  with eq show ?thesis by simp
qed

theorem saveSettings_single_block_witness:
  "(HostWord = HostPowerPoint \<or> HostWord = HostWord)
   \<and> saveSettings exampleRuntime ''t1'' True HostWord
        [\<lparr>xml = ''<MermaidSettings><Theme>dark</Theme></MermaidSettings>'', readable = True\<rparr>,
         \<lparr>xml = ''<Other/>'', readable = False\<rparr>] defaultSettings
       = (Inr (), [\<lparr>xml = ''<Other/>'', readable = False\<rparr>,
                   \<lparr>xml = settingsXml exampleRuntime defaultSettings ''t1'', readable = True\<rparr>])
   \<and> countSettingsParts (snd (saveSettings exampleRuntime ''t1'' True HostWord
        [\<lparr>xml = ''<MermaidSettings><Theme>dark</Theme></MermaidSettings>'', readable = True\<rparr>,
         \<lparr>xml = ''<Other/>'', readable = False\<rparr>] defaultSettings)) = 1"
proof -
  have h: "HostWord = HostPowerPoint \<or> HostWord = HostWord" by simp
  have r: "\<forall>p\<in>set [\<lparr>xml = ''<MermaidSettings><Theme>dark</Theme></MermaidSettings>'', readable = True\<rparr>,
         \<lparr>xml = ''<Other/>'', readable = False\<rparr>]. hasSettingsMarker p \<longrightarrow> readable p"
    by (simp add: hasSettingsMarker_def)
  have f: "filter (\<lambda>p. \<not> hasSettingsMarker p) [\<lparr>xml = ''<MermaidSettings><Theme>dark</Theme></MermaidSettings>'', readable = True\<rparr>,
         \<lparr>xml = ''<Other/>'', readable = False\<rparr>] = [\<lparr>xml = ''<Other/>'', readable = False\<rparr>]"
    by (simp add: hasSettingsMarker_def)
  note t = saveSettings_single_block [OF h r, of exampleRuntime "''t1''" defaultSettings,
    unfolded f append.simps]
  from h t show ?thesis by blast
qed

text \<open>
  The claim as stated fails: a settings part whose \<open>getXml\<close> fails is skipped by the
  removal loop, the save succeeds all the same, and the document has two settings parts.
\<close>

theorem saveSettings_unreadable_counterexample:
  "fst (saveSettings exampleRuntime ''t1'' True HostWord
          [\<lparr>xml = ''<MermaidSettings><Theme>dark</Theme></MermaidSettings>'', readable = False\<rparr>]
          defaultSettings) = Inr ()
   \<and> countSettingsParts (snd (saveSettings exampleRuntime ''t1'' True HostWord
          [\<lparr>xml = ''<MermaidSettings><Theme>dark</Theme></MermaidSettings>'', readable = False\<rparr>]
          defaultSettings)) = 2"
  by (simp add: saveSettings_def detectOfficePlatform_def removeExistingSettings_def
        isSettingsPart_def countSettingsParts_def settingsXml_marker)
     (simp add: hasSettingsMarker_def)

section \<open>Selection recovery (PowerPoint)\<close>






section \<open>Leaving the insertion mode\<close>





end
